theory Spec2Isabelle
  imports Main
begin

section \<open>JavaScript values and object properties\<close>

text \<open>
  The source is TypeScript (\<^verbatim>\<open>src/proxy.ts\<close>). Three features of the language
  matter to the properties proved here and are written out:
  \<^item> an object property is absent, present with the value \<^verbatim>\<open>undefined\<close>, or present
    with a defined value;
  \<^item> a parameter declared \<^verbatim>\<open>x?: T\<close> receives \<^verbatim>\<open>undefined\<close> when it is omitted: such a
    parameter is an \<open>option\<close>, with \<open>None\<close> for \<^verbatim>\<open>undefined\<close>;
  \<^item> \<^verbatim>\<open>if (x)\<close> tests truthiness, not presence.
\<close>

datatype 'a slot = Absent | Undefined | Value 'a

text \<open>
  Defined values of static type \<^verbatim>\<open>any\<close>. Numbers are the integers and \<^verbatim>\<open>NaN\<close>;
  an object is the list of its own properties.
\<close>

datatype jsval =
    JNull
  | JBool bool
  | JNum int
  | JNaN
  | JStr string
  | JObj "(string \<times> jsval) list"

text \<open>\<^verbatim>\<open>if (x)\<close> for \<^verbatim>\<open>x: any\<close>: the falsy values are \<^verbatim>\<open>undefined\<close>, \<^verbatim>\<open>null\<close>,
  \<^verbatim>\<open>false\<close>, \<^verbatim>\<open>0\<close>, \<^verbatim>\<open>NaN\<close> and the empty string; every object is truthy.\<close>

fun truthy :: "jsval option \<Rightarrow> bool" where
  "truthy None = False"
| "truthy (Some JNull) = False"
| "truthy (Some (JBool b)) = b"
| "truthy (Some (JNum n)) = (n \<noteq> 0)"
| "truthy (Some JNaN) = False"
| "truthy (Some (JStr s)) = (s \<noteq> [])"
| "truthy (Some (JObj ps)) = True"

text \<open>Storing a possibly undefined argument in a property: the key is written either way.\<close>

fun of_arg :: "'a option \<Rightarrow> 'a slot" where
  "of_arg None = Undefined"
| "of_arg (Some v) = Value v"

text \<open>
  One key of \<^verbatim>\<open>Object.assign(target, source)\<close> and of the spread
  \<^verbatim>\<open>{...target, ...source}\<close>: an own property of the source, whatever its value,
  replaces the target's; a key the source does not have keeps the target's.
\<close>

fun assign :: "'a slot \<Rightarrow> 'a slot \<Rightarrow> 'a slot" where
  "assign old Absent = old"
| "assign old Undefined = Undefined"
| "assign old (Value v) = Value v"

section \<open>ProgressEvent\<close>

text \<open>Modelled from the spec: the enum \<^verbatim>\<open>OperationStatus\<close> is declared in
  \<^verbatim>\<open>./interface\<close>, which is not among the sources; the spec gives its values as
  IN\_PROGRESS, SUCCESS and FAILED, and the source uses the members \<^verbatim>\<open>InProgress\<close>,
  \<^verbatim>\<open>Success\<close> and \<^verbatim>\<open>Failed\<close>.\<close>

datatype OperationStatus = InProgress | Success | Failed

text \<open>
  The class \<^verbatim>\<open>ProgressEvent\<close>, one field per declared property, each holding the state
  of that own property. \<^verbatim>\<open>HandlerErrorCode\<close> (declared in \<^verbatim>\<open>./interface\<close>) is the type
  parameter \<open>'e\<close>. The static helpers take \<^verbatim>\<open>model?: any\<close> and \<^verbatim>\<open>ctx?: any\<close>, so the
  resource model and the callback context are \<open>jsval\<close>. A \<^verbatim>\<open>Partial<ProgressEvent>\<close>
  is the same record: any of its properties may be absent.
\<close>

record 'e ProgressEvent =
  status :: "OperationStatus slot"
  errorCode :: "'e slot"
  message :: "string slot"
  callbackContext :: "jsval slot"
  callbackDelaySeconds :: "int slot"
  resourceModel :: "jsval slot"
  resourceModels :: "jsval list slot"
  nextToken :: "string slot"

text \<open>
  The instance after \<^verbatim>\<open>super()\<close> and the field initialisers: \<^verbatim>\<open>message = ''\<close> and
  \<^verbatim>\<open>callbackDelaySeconds = 0\<close>; a field declared without an initialiser is not written
  (reading it gives \<^verbatim>\<open>undefined\<close>, and the serialised form omits it).
\<close>

definition class_defaults :: "'e ProgressEvent" where
  "class_defaults =
     \<lparr> status = Absent, errorCode = Absent, message = Value [],
       callbackContext = Absent, callbackDelaySeconds = Value 0,
       resourceModel = Absent, resourceModels = Absent, nextToken = Absent \<rparr>"

text \<open>\<^verbatim>\<open>Object.assign(this, partial)\<close>, key by key.\<close>

definition object_assign :: "'e ProgressEvent \<Rightarrow> 'e ProgressEvent \<Rightarrow> 'e ProgressEvent" where
  "object_assign this partial =
     \<lparr> status = assign (status this) (status partial),
       errorCode = assign (errorCode this) (errorCode partial),
       message = assign (message this) (message partial),
       callbackContext = assign (callbackContext this) (callbackContext partial),
       callbackDelaySeconds = assign (callbackDelaySeconds this) (callbackDelaySeconds partial),
       resourceModel = assign (resourceModel this) (resourceModel partial),
       resourceModels = assign (resourceModels this) (resourceModels partial),
       nextToken = assign (nextToken this) (nextToken partial) \<rparr>"

text \<open>
  \<^verbatim>\<open>constructor(partial?: Partial<ProgressEvent>)\<close>:
  \<^verbatim>\<open>super(); if (partial) { Object.assign(this, partial); }\<close>.
  An object is truthy, so the test fails only for an omitted argument.
\<close>

fun new_ProgressEvent :: "'e ProgressEvent option \<Rightarrow> 'e ProgressEvent" where
  "new_ProgressEvent None = class_defaults"
| "new_ProgressEvent (Some partial) = object_assign class_defaults partial"

text \<open>The object literal \<^verbatim>\<open>{}\<close> as a \<^verbatim>\<open>Partial<ProgressEvent>\<close>.\<close>

definition empty_partial :: "'e ProgressEvent" where
  "empty_partial =
     \<lparr> status = Absent, errorCode = Absent, message = Absent,
       callbackContext = Absent, callbackDelaySeconds = Absent,
       resourceModel = Absent, resourceModels = Absent, nextToken = Absent \<rparr>"

section \<open>The builder\<close>

text \<open>Modelled from the spec: the builder of \<^verbatim>\<open>ProgressEvent\<close>. In the source
  \<^verbatim>\<open>ProgressEvent.builder\<close> is a placeholder (its body is \<^verbatim>\<open>return null\<close>) that the class
  decorator \<^verbatim>\<open>@builder\<close> of the package \<^verbatim>\<open>tombok\<close> replaces, and that package is not
  among the sources. The spec describes a draft holding an optional slot for every
  field, chained setters (one per attribute) that write into the live draft, and a
  terminal \<^verbatim>\<open>build()\<close> that yields the final value, with the defaults
  \<^verbatim>\<open>message = ''\<close> and \<^verbatim>\<open>callbackDelaySeconds = 0\<close> for what was not specified.
  The validation of required fields that the spec also gives to \<^verbatim>\<open>build()\<close> is not part
  of the model, because the source has nothing that could perform it: the decorator is
  generic and is applied bare (\<^verbatim>\<open>@builder\<close>, no argument), the fields carry only
  \<^verbatim>\<open>@Expose()\<close>, the \<^verbatim>\<open>?\<close> of an optional field is erased at run time, and no rule
  relating \<^verbatim>\<open>errorCode\<close> to \<^verbatim>\<open>status\<close> is written anywhere in the class.\<close>

text \<open>The exception of the source: \<^verbatim>\<open>new\<close> applied to what is not a constructor.\<close>

datatype error = NotAConstructor

text \<open>\<^verbatim>\<open>builder(template?)\<close>: the draft starts from the template, or empty.\<close>

fun builder :: "'e ProgressEvent option \<Rightarrow> 'e ProgressEvent" where
  "builder None = empty_partial"
| "builder (Some template) = template"

text \<open>One setter call of a chain. A setter of an optional attribute may be handed
  \<^verbatim>\<open>undefined\<close>; the slot is written either way.\<close>

datatype 'e setter =
    SetStatus OperationStatus
  | SetErrorCode "'e option"
  | SetMessage string
  | SetCallbackContext "jsval option"
  | SetCallbackDelaySeconds int
  | SetResourceModel "jsval option"
  | SetResourceModels "jsval list option"
  | SetNextToken "string option"

fun call :: "'e setter \<Rightarrow> 'e ProgressEvent \<Rightarrow> 'e ProgressEvent" where
  "call (SetStatus v) draft = draft\<lparr>status := Value v\<rparr>"
| "call (SetErrorCode v) draft = draft\<lparr>errorCode := of_arg v\<rparr>"
| "call (SetMessage v) draft = draft\<lparr>message := Value v\<rparr>"
| "call (SetCallbackContext v) draft = draft\<lparr>callbackContext := of_arg v\<rparr>"
| "call (SetCallbackDelaySeconds v) draft = draft\<lparr>callbackDelaySeconds := Value v\<rparr>"
| "call (SetResourceModel v) draft = draft\<lparr>resourceModel := of_arg v\<rparr>"
| "call (SetResourceModels v) draft = draft\<lparr>resourceModels := of_arg v\<rparr>"
| "call (SetNextToken v) draft = draft\<lparr>nextToken := of_arg v\<rparr>"



text \<open>\<^verbatim>\<open>build()\<close>: the event constructed from the draft. It returns for every draft
  (\<open>Inr\<close>); the helpers that call it keep the result type of a call that may throw.\<close>

definition build :: "'e ProgressEvent \<Rightarrow> error + 'e ProgressEvent" where
  "build draft = Inr (new_ProgressEvent (Some draft))"

section \<open>The convenience constructors\<close>

text \<open>
  \<^verbatim>\<open>failed(errorCode, message)\<close>:
  \<^verbatim>\<open>ProgressEvent.builder().status(OperationStatus.Failed).errorCode(errorCode).message(message).build()\<close>.
\<close>

definition failed :: "'e \<Rightarrow> string \<Rightarrow> error + 'e ProgressEvent" where
  "failed code msg =
     build (call (SetMessage msg)
             (call (SetErrorCode (Some code))
               (call (SetStatus Failed) (builder None))))"

text \<open>
  \<^verbatim>\<open>progress(model?: any, ctx?: any)\<close>: the builder with the status set is kept in a
  variable; \<^verbatim>\<open>if (ctx) { progress.callbackContext(ctx); }\<close> and
  \<^verbatim>\<open>if (model) { progress.resourceModel(model); }\<close> write into that live draft, in this
  order; then \<^verbatim>\<open>progress.build()\<close>.
\<close>

definition progress :: "jsval option \<Rightarrow> jsval option \<Rightarrow> error + 'e ProgressEvent" where
  "progress model ctx =
     (let progress0 = call (SetStatus InProgress) (builder None);
          progress1 = (if truthy ctx then call (SetCallbackContext ctx) progress0 else progress0);
          progress2 = (if truthy model then call (SetResourceModel model) progress1 else progress1)
      in build progress2)"

text \<open>
  \<^verbatim>\<open>success(model?: any, ctx?: any)\<close>:
  \<^verbatim>\<open>const event = ProgressEvent.progress(model, ctx); event.status = OperationStatus.Success;\<close>
  An exception of \<^verbatim>\<open>progress\<close> propagates.
\<close>

definition success :: "jsval option \<Rightarrow> jsval option \<Rightarrow> error + 'e ProgressEvent" where
  "success model ctx =
     (case progress model ctx of
        Inl e \<Rightarrow> Inl e
      | Inr event \<Rightarrow> Inr (event\<lparr>status := Value Success\<rparr>))"

section \<open>SessionProxy\<close>

text \<open>
  \<^verbatim>\<open>ConfigurationOptions\<close> of the SDK: the two keys the source names, and the
  remaining client options by key. \<^verbatim>\<open>CredentialsOptions\<close> (an object type of the SDK)
  is the type parameter \<open>'c\<close>.
\<close>

record 'c ConfigurationOptions =
  credentials :: "'c slot"
  region :: "string slot"
  other_options :: "string \<Rightarrow> jsval slot"

text \<open>\<^verbatim>\<open>constructor(private options: ConfigurationOptions) {}\<close>\<close>

record 'c SessionProxy =
  options :: "'c ConfigurationOptions"

text \<open>
  \<^verbatim>\<open>getSession(credentials?, region?)\<close>:
  \<^verbatim>\<open>if (!credentials) { return null; } return new SessionProxy({ credentials, region });\<close>
  The result \<open>None\<close> is \<^verbatim>\<open>null\<close>. A credentials object is truthy, so the test holds
  only for an omitted argument. The object literal has both keys, \<^verbatim>\<open>region\<close> with the
  value \<^verbatim>\<open>undefined\<close> when the argument was omitted.
\<close>

fun getSession :: "'c option \<Rightarrow> string option \<Rightarrow> 'c SessionProxy option" where
  "getSession None reg = None"
| "getSession (Some creds) reg =
     Some \<lparr> options = \<lparr> credentials = Value creds, region = of_arg reg,
                         other_options = (\<lambda>k. Absent) \<rparr> \<rparr>"

text \<open>
  The object literal \<^verbatim>\<open>{ ...this.options, ...options }\<close>: a new object with the own
  properties of the first, then those of the second written over them; spreading
  \<^verbatim>\<open>undefined\<close> adds nothing.
\<close>

fun spread :: "'c ConfigurationOptions \<Rightarrow> 'c ConfigurationOptions option \<Rightarrow> 'c ConfigurationOptions" where
  "spread base None = base"
| "spread base (Some opts) =
     \<lparr> credentials = assign (credentials base) (credentials opts),
       region = assign (region base) (region opts),
       other_options = (\<lambda>k. assign (other_options base k) (other_options opts k)) \<rparr>"

text \<open>Modelled from the spec: the SDK (\<^verbatim>\<open>aws-sdk/clients/all\<close>), which is not among
  the sources: a mapping from service name to a constructor accepting a configuration
  object. It is the parameter \<open>aws\<close>, true at the names that have a constructor; a
  constructed client is a new object that holds the name of its service and the
  configuration it was given. \<open>instance_id\<close> is the identity of the object:
  \<^verbatim>\<open>new\<close> yields an object distinct from every object allocated before.\<close>

record 'c Client =
  instance_id :: nat
  service :: string
  config :: "'c ConfigurationOptions"

text \<open>The state a call of the method \<^verbatim>\<open>client\<close> runs in: the receiver and the number of
  client objects allocated so far.\<close>

record 'c runtime =
  this :: "'c SessionProxy"
  allocated :: nat

text \<open>
  \<^verbatim>\<open>client(name, options?)\<close>:
  \<^verbatim>\<open>const service = new clients[name]({ ...this.options, ...options }); return service;\<close>
  A name without a constructor makes \<^verbatim>\<open>new\<close> throw. Nothing is assigned to
  \<^verbatim>\<open>this.options\<close>.
\<close>

definition client ::
  "(string \<Rightarrow> bool) \<Rightarrow> string \<Rightarrow> 'c ConfigurationOptions option \<Rightarrow> 'c runtime
     \<Rightarrow> (error + 'c Client) \<times> 'c runtime" where
  "client aws name opts st =
     (if aws name
      then (Inr \<lparr> instance_id = allocated st, service = name,
                   config = spread (options (this st)) opts \<rparr>,
            st\<lparr>allocated := Suc (allocated st)\<rparr>)
      else (Inl NotAConstructor, st))"

text \<open>A sequence of \<^verbatim>\<open>client(...)\<close> calls on one proxy, with the result of each.\<close>

fun client_calls ::
  "(string \<Rightarrow> bool) \<Rightarrow> (string \<times> 'c ConfigurationOptions option) list \<Rightarrow> 'c runtime
     \<Rightarrow> (error + 'c Client) list \<times> 'c runtime" where
  "client_calls aws [] st = ([], st)"
| "client_calls aws ((name, opts) # cs) st =
     (case client aws name opts st of
        (r, st') \<Rightarrow> (case client_calls aws cs st' of (rs, st'') \<Rightarrow> (r # rs, st'')))"

text \<open>The clients constructed by the calls that returned one.\<close>

fun constructed :: "(error + 'c Client) list \<Rightarrow> 'c Client list" where
  "constructed [] = []"
| "constructed (Inr c # rs) = c # constructed rs"
| "constructed (Inl e # rs) = constructed rs"

text \<open>The configuration a call handed to the client it constructed.\<close>

fun given_config :: "error + 'c Client \<Rightarrow> error + 'c ConfigurationOptions" where
  "given_config (Inl e) = Inl e"
| "given_config (Inr c) = Inr (config c)"

section \<open>Properties of the constructor\<close>

lemma assign_Absent [simp]: "assign Absent x = x"
  by (cases x) simp_all

text \<open>
  C9. A ProgressEvent constructed with no overrides (no partial source) has
  \<^verbatim>\<open>message == ''\<close> and \<^verbatim>\<open>callbackDelaySeconds == 0\<close>.
\<close>

theorem default_construction:
  "message (new_ProgressEvent None) = Value ''''
   \<and> callbackDelaySeconds (new_ProgressEvent None) = Value 0"
  by (simp add: class_defaults_def)

text \<open>
  C6. Constructing a ProgressEvent from a partial source object copies every property
  present in the source as it is, leaves the properties the source does not have at
  the class defaults (\<^verbatim>\<open>message = ''\<close>, \<^verbatim>\<open>callbackDelaySeconds = 0\<close>, the others absent),
  and validates nothing: the constructor returns an event for every partial, also for
  one with status FAILED and no error code. From \<^verbatim>\<open>{status: SUCCESS, message: "ok"}\<close>
  the event has exactly these two properties besides the defaults.
\<close>

theorem construct_from_partial:
  "status (new_ProgressEvent (Some p)) = status p
   \<and> errorCode (new_ProgressEvent (Some p)) = errorCode p
   \<and> message (new_ProgressEvent (Some p))
       = (case message p of Absent \<Rightarrow> Value '''' | Undefined \<Rightarrow> Undefined | Value m \<Rightarrow> Value m)
   \<and> callbackContext (new_ProgressEvent (Some p)) = callbackContext p
   \<and> callbackDelaySeconds (new_ProgressEvent (Some p))
       = (case callbackDelaySeconds p of Absent \<Rightarrow> Value 0 | Undefined \<Rightarrow> Undefined | Value d \<Rightarrow> Value d)
   \<and> resourceModel (new_ProgressEvent (Some p)) = resourceModel p
   \<and> resourceModels (new_ProgressEvent (Some p)) = resourceModels p
   \<and> nextToken (new_ProgressEvent (Some p)) = nextToken p
   \<and> new_ProgressEvent (Some (empty_partial\<lparr>status := Value Success, message := Value ''ok''\<rparr>))
       = \<lparr> status = Value Success, errorCode = Absent, message = Value ''ok'',
           callbackContext = Absent, callbackDelaySeconds = Value 0,
           resourceModel = Absent, resourceModels = Absent, nextToken = Absent \<rparr>
   \<and> new_ProgressEvent (Some (empty_partial\<lparr>status := Value Failed\<rparr>))
       = \<lparr> status = Value Failed, errorCode = Absent, message = Value '''',
           callbackContext = Absent, callbackDelaySeconds = Value 0,
           resourceModel = Absent, resourceModels = Absent, nextToken = Absent \<rparr>"
  by (simp add: object_assign_def class_defaults_def empty_partial_def split: slot.split)

text \<open>
  C10. A partial source object with a key whose value is explicitly \<^verbatim>\<open>undefined\<close>
  overrides the class default of that field: from \<^verbatim>\<open>{message: undefined}\<close> the message
  of the event is \<^verbatim>\<open>undefined\<close>, not \<^verbatim>\<open>''\<close>, and an explicitly undefined
  \<^verbatim>\<open>callbackDelaySeconds\<close> replaces the default \<^verbatim>\<open>0\<close>, whatever else the partial holds.
\<close>

theorem explicit_undefined_overrides_default:
  "message (new_ProgressEvent (Some (empty_partial\<lparr>message := Undefined\<rparr>))) = Undefined
   \<and> message (new_ProgressEvent (Some (p\<lparr>message := Undefined\<rparr>))) = Undefined
   \<and> message (new_ProgressEvent (Some (p\<lparr>message := Undefined\<rparr>))) \<noteq> Value ''''
   \<and> callbackDelaySeconds (new_ProgressEvent (Some (empty_partial\<lparr>callbackDelaySeconds := Undefined\<rparr>)))
       = Undefined
   \<and> callbackDelaySeconds (new_ProgressEvent (Some (p\<lparr>callbackDelaySeconds := Undefined\<rparr>))) = Undefined
   \<and> callbackDelaySeconds (new_ProgressEvent (Some (p\<lparr>callbackDelaySeconds := Undefined\<rparr>))) \<noteq> Value 0"
  by (simp add: object_assign_def)

section \<open>Properties of the convenience constructors\<close>

lemma progress_value:
  "progress model ctx =
     Inr \<lparr> status = Value InProgress, errorCode = Absent, message = Value '''',
           callbackContext = (if truthy ctx then of_arg ctx else Absent),
           callbackDelaySeconds = Value 0,
           resourceModel = (if truthy model then of_arg model else Absent),
           resourceModels = Absent, nextToken = Absent \<rparr>"
  by (simp add: progress_def Let_def build_def object_assign_def class_defaults_def
      empty_partial_def)

text \<open>On the arguments the helper is meant for, an object or nothing, a field is set
  exactly when its argument was provided.\<close>

lemma progress_objects:
  "progress (Some (JObj m)) (Some (JObj c))
     = Inr (new_ProgressEvent (Some (empty_partial
         \<lparr>status := Value InProgress, callbackContext := Value (JObj c),
          resourceModel := Value (JObj m)\<rparr>)))"
  "progress (Some (JObj m)) None
     = Inr (new_ProgressEvent (Some (empty_partial
         \<lparr>status := Value InProgress, resourceModel := Value (JObj m)\<rparr>)))"
  "progress None (Some (JObj c))
     = Inr (new_ProgressEvent (Some (empty_partial
         \<lparr>status := Value InProgress, callbackContext := Value (JObj c)\<rparr>)))"
  "progress None None
     = Inr (new_ProgressEvent (Some (empty_partial\<lparr>status := Value InProgress\<rparr>)))"
  by (simp_all add: progress_value object_assign_def class_defaults_def empty_partial_def)

text \<open>
  C2. For every error code and message, \<^verbatim>\<open>failed(errorCode, message)\<close> returns an event
  with status FAILED, the given error code and the given message, and with
  \<^verbatim>\<open>resourceModel\<close> and \<^verbatim>\<open>callbackContext\<close> absent.
\<close>

theorem failed_event:
  "\<exists>event. failed code msg = Inr event
     \<and> status event = Value Failed
     \<and> errorCode event = Value code
     \<and> message event = Value msg
     \<and> resourceModel event = Absent
     \<and> callbackContext event = Absent"
  by (simp add: failed_def build_def object_assign_def class_defaults_def empty_partial_def)

text \<open>
  C1, as the code has it. For every call \<^verbatim>\<open>progress(model, ctx)\<close> the returned event has
  status IN\_PROGRESS; its \<^verbatim>\<open>resourceModel\<close> is \<^verbatim>\<open>model\<close> when \<^verbatim>\<open>model\<close> is truthy and is
  absent otherwise; its \<^verbatim>\<open>callbackContext\<close> is \<^verbatim>\<open>ctx\<close> when \<^verbatim>\<open>ctx\<close> is truthy and is
  absent otherwise. Every object is truthy, so for arguments that are objects or
  omitted the field is set exactly when the argument was provided.
\<close>

theorem progress_event:
  "\<exists>event. progress model ctx = Inr event
     \<and> status event = Value InProgress
     \<and> resourceModel event
         = (case model of None \<Rightarrow> Absent
            | Some m \<Rightarrow> if truthy (Some m) then Value m else Absent)
     \<and> callbackContext event
         = (case ctx of None \<Rightarrow> Absent
            | Some c \<Rightarrow> if truthy (Some c) then Value c else Absent)"
  by (simp add: progress_value split: option.split)

text \<open>
  The claim C1 as stated fails for a provided argument that is falsy:
  \<^verbatim>\<open>progress(0, '')\<close> returns an event with neither \<^verbatim>\<open>resourceModel\<close> nor
  \<^verbatim>\<open>callbackContext\<close>.
\<close>

theorem progress_falsy_arguments_counterexample:
  "(progress (Some (JNum 0)) (Some (JStr '''')) :: error + string ProgressEvent)
     = Inr \<lparr> status = Value InProgress, errorCode = Absent, message = Value '''',
             callbackContext = Absent, callbackDelaySeconds = Value 0,
             resourceModel = Absent, resourceModels = Absent, nextToken = Absent \<rparr>"
  by (simp add: progress_value)

text \<open>
  C3. For every model and ctx, \<^verbatim>\<open>success(model, ctx)\<close> returns the event of
  \<^verbatim>\<open>progress(model, ctx)\<close> with the status SUCCESS: every other field is equal.
\<close>

theorem success_is_progress_except_status:
  "\<exists>p s. progress model ctx = Inr p \<and> success model ctx = Inr s
     \<and> status s = Value Success
     \<and> s = p\<lparr>status := Value Success\<rparr>
     \<and> errorCode s = errorCode p
     \<and> message s = message p
     \<and> callbackContext s = callbackContext p
     \<and> callbackDelaySeconds s = callbackDelaySeconds p
     \<and> resourceModel s = resourceModel p
     \<and> resourceModels s = resourceModels p
     \<and> nextToken s = nextToken p"
  by (simp add: success_def progress_value)

section \<open>Properties of the builder\<close>




section \<open>Properties of SessionProxy\<close>

text \<open>
  C4. \<^verbatim>\<open>getSession\<close> returns \<^verbatim>\<open>null\<close> whenever no credentials are supplied, for any
  region, and does not throw (it has no failing branch); when credentials are
  supplied it returns a proxy whose base configuration is exactly
  \<^verbatim>\<open>{credentials, region}\<close>.
\<close>

theorem getSession_result:
  "getSession None reg = None
   \<and> (\<exists>proxy. getSession (Some creds) reg = Some proxy
        \<and> credentials (options proxy) = Value creds
        \<and> region (options proxy) = (case reg of None \<Rightarrow> Undefined | Some r \<Rightarrow> Value r)
        \<and> (\<forall>k. other_options (options proxy) k = Absent))"
  by (simp split: option.split)

lemma client_result:
  "aws name \<Longrightarrow>
     client aws name opts st
       = (Inr \<lparr> instance_id = allocated st, service = name,
                 config = spread (options (this st)) opts \<rparr>,
          st\<lparr>allocated := Suc (allocated st)\<rparr>)"
  by (simp add: client_def)

text \<open>
  C5. For every proxy and every call \<^verbatim>\<open>client(name, options)\<close> of a service the SDK
  has, the configuration passed to the constructed client is the shallow merge of the
  proxy's base configuration with the per-call options, the per-call options winning
  key by key: a key the options have takes their value as it is, a key they do not
  have keeps the base value, and without options the configuration is the base one.
  In particular \<^verbatim>\<open>{region: "X"}\<close> on a proxy of any region yields a client of region
  \<^verbatim>\<open>"X"\<close>.
\<close>

theorem client_config_merge:
  assumes "aws name"
  shows "\<exists>c st'. client aws name opts st = (Inr c, st')
     \<and> service c = name
     \<and> (case opts of
          None \<Rightarrow> config c = options (this st)
        | Some per_call \<Rightarrow>
            credentials (config c)
              = (case credentials per_call of
                   Absent \<Rightarrow> credentials (options (this st)) | Undefined \<Rightarrow> Undefined
                 | Value v \<Rightarrow> Value v)
            \<and> region (config c)
              = (case region per_call of
                   Absent \<Rightarrow> region (options (this st)) | Undefined \<Rightarrow> Undefined
                 | Value v \<Rightarrow> Value v)
            \<and> (\<forall>k. other_options (config c) k
                  = (case other_options per_call k of
                       Absent \<Rightarrow> other_options (options (this st)) k | Undefined \<Rightarrow> Undefined
                     | Value v \<Rightarrow> Value v)))
     \<and> (\<exists>cx stx. client aws name (Some (per_call\<lparr>region := Value x\<rparr>)) st = (Inr cx, stx)
           \<and> region (config cx) = Value x)"
  using assms by (simp add: client_result split: option.split slot.split)

theorem client_config_merge_witness:
  "(\<lambda>n. n = ''S3'' \<or> n = ''EC2'') ''S3''
   \<and> (\<exists>proxy c st'. getSession (Some (''AKIA'', ''secret'')) (Some ''Y'') = Some proxy
        \<and> client (\<lambda>n. n = ''S3'' \<or> n = ''EC2'') ''S3''
             (Some \<lparr> credentials = Absent, region = Value ''X'', other_options = (\<lambda>k. Absent) \<rparr>)
             \<lparr> this = proxy, allocated = 0 \<rparr> = (Inr c, st')
        \<and> region (config c) = Value ''X''
        \<and> credentials (config c) = Value (''AKIA'', ''secret''))"
  using client_config_merge
    [of "\<lambda>n. n = ''S3'' \<or> n = ''EC2''" "''S3''"
        "Some \<lparr> credentials = Absent, region = Value ''X'', other_options = (\<lambda>k. Absent) \<rparr>"
        "\<lparr> this = \<lparr> options = \<lparr> credentials = Value (''AKIA'', ''secret''), region = Value ''Y'',
                                   other_options = (\<lambda>k. Absent) \<rparr> \<rparr>, allocated = 0 \<rparr>"]
  by (simp add: client_def)

lemma client_this: "this (snd (client aws name opts st)) = this st"
  by (simp add: client_def)

lemma client_allocated: "allocated st \<le> allocated (snd (client aws name opts st))"
  by (simp add: client_def)

lemma client_config_indep:
  "this st' = this st \<Longrightarrow>
     given_config (fst (client aws name opts st'))
       = given_config (fst (client aws name opts st))"
  by (simp add: client_def)

lemma client_calls_this: "this (snd (client_calls aws cs st)) = this st"
proof (induction cs arbitrary: st)
  case Nil
  show ?case by simp
next
  case (Cons nc cs)
  obtain name opts where nc: "nc = (name, opts)" by (cases nc)
  obtain r st' where r: "client aws name opts st = (r, st')" by (cases "client aws name opts st")
  obtain rs st'' where rs: "client_calls aws cs st' = (rs, st'')"
    by (cases "client_calls aws cs st'")
  from Cons.IH [of st'] rs have "this st'' = this st'" by simp
  moreover from client_this [of aws name opts st] r have "this st' = this st" by simp
  ultimately show ?case by (simp add: nc r rs)
qed

lemma client_calls_configs:
  "map (given_config) (fst (client_calls aws cs st))
     = map (\<lambda>(name, opts). given_config (fst (client aws name opts st))) cs"
proof (induction cs arbitrary: st)
  case Nil
  show ?case by simp
next
  case (Cons nc cs)
  obtain name opts where nc: "nc = (name, opts)" by (cases nc)
  obtain r st' where r: "client aws name opts st = (r, st')" by (cases "client aws name opts st")
  obtain rs st'' where rs: "client_calls aws cs st' = (rs, st'')"
    by (cases "client_calls aws cs st'")
  from client_this [of aws name opts st] r have same: "this st' = this st" by simp
  have "map (given_config) rs
      = map (\<lambda>(name, opts). given_config (fst (client aws name opts st'))) cs"
    using Cons.IH [of st'] rs by simp
  also have "\<dots> = map (\<lambda>(name, opts). given_config (fst (client aws name opts st))) cs"
    using client_config_indep [OF same] by simp
  finally show ?case by (simp add: nc r rs)
qed

lemma client_calls_allocated: "allocated st \<le> allocated (snd (client_calls aws cs st))"
proof (induction cs arbitrary: st)
  case Nil
  show ?case by simp
next
  case (Cons nc cs)
  obtain name opts where nc: "nc = (name, opts)" by (cases nc)
  obtain r st' where r: "client aws name opts st = (r, st')" by (cases "client aws name opts st")
  obtain rs st'' where rs: "client_calls aws cs st' = (rs, st'')"
    by (cases "client_calls aws cs st'")
  from Cons.IH [of st'] rs have "allocated st' \<le> allocated st''" by simp
  moreover from client_allocated [of st aws name opts] r have "allocated st \<le> allocated st'"
    by simp
  ultimately show ?case by (simp add: nc r rs)
qed

lemma client_calls_ids:
  "c \<in> set (constructed (fst (client_calls aws cs st))) \<Longrightarrow> allocated st \<le> instance_id c"
proof (induction cs arbitrary: st)
  case Nil
  then show ?case by simp
next
  case (Cons nc cs)
  obtain name opts where nc: "nc = (name, opts)" by (cases nc)
  obtain r st' where r: "client aws name opts st = (r, st')" by (cases "client aws name opts st")
  obtain rs st'' where rs: "client_calls aws cs st' = (rs, st'')"
    by (cases "client_calls aws cs st'")
  from Cons.prems have mem: "c \<in> set (constructed (r # rs))" by (simp add: nc r rs)
  from client_allocated [of st aws name opts] r have le: "allocated st \<le> allocated st'" by simp
  have later: "c \<in> set (constructed rs) \<Longrightarrow> allocated st \<le> instance_id c"
  proof -
    assume "c \<in> set (constructed rs)"
    with Cons.IH [of st'] rs have "allocated st' \<le> instance_id c" by simp
    with le show ?thesis by simp
  qed
  show ?case
  proof (cases r)
    case (Inl e)
    with mem later show ?thesis by simp
  next
    case (Inr c')
    with r have "instance_id c' = allocated st" by (auto simp: client_def split: if_splits)
    with Inr mem later show ?thesis by auto
  qed
qed

lemma client_calls_distinct:
  "distinct (map instance_id (constructed (fst (client_calls aws cs st))))"
proof (induction cs arbitrary: st)
  case Nil
  show ?case by simp
next
  case (Cons nc cs)
  obtain name opts where nc: "nc = (name, opts)" by (cases nc)
  obtain r st' where r: "client aws name opts st = (r, st')" by (cases "client aws name opts st")
  obtain rs st'' where rs: "client_calls aws cs st' = (rs, st'')"
    by (cases "client_calls aws cs st'")
  from Cons.IH [of st'] rs have ih: "distinct (map instance_id (constructed rs))" by simp
  show ?case
  proof (cases r)
    case (Inl e)
    with ih show ?thesis by (simp add: nc r rs)
  next
    case (Inr c')
    with r have cid: "instance_id c' = allocated st" and st': "allocated st' = Suc (allocated st)"
      by (auto simp: client_def split: if_splits)
    have "instance_id c' \<notin> instance_id ` set (constructed rs)"
    proof
      assume "instance_id c' \<in> instance_id ` set (constructed rs)"
      then obtain c where c: "c \<in> set (constructed rs)" and eq: "instance_id c = instance_id c'"
        by auto
      from c rs have "c \<in> set (constructed (fst (client_calls aws cs st')))" by simp
      from client_calls_ids [OF this] have "allocated st' \<le> instance_id c" .
      with eq cid st' show False by simp
    qed
    with ih Inr show ?thesis by (simp add: nc r rs)
  qed
qed

lemma constructed_length: "length (constructed rs) \<le> length rs"
  by (induction rs rule: constructed.induct) simp_all

lemma constructed_all:
  "length (constructed rs) = length rs \<Longrightarrow> rs = map Inr (constructed rs)"
proof (induction rs rule: constructed.induct)
  case 1
  show ?case by simp
next
  case (2 c rs)
  then show ?case by simp
next
  case (3 e rs)
  from constructed_length [of rs] "3.prems" show ?case by simp
qed

lemma client_calls_all_constructed:
  "list_all (\<lambda>(name, opts). aws name) cs \<Longrightarrow>
     length (constructed (fst (client_calls aws cs st))) = length cs"
proof (induction cs arbitrary: st)
  case Nil
  show ?case by simp
next
  case (Cons nc cs)
  obtain name opts where nc: "nc = (name, opts)" by (cases nc)
  from Cons.prems nc have known: "aws name" and rest: "list_all (\<lambda>(name, opts). aws name) cs"
    by simp_all
  obtain rs st'' where rs:
    "client_calls aws cs (st\<lparr>allocated := Suc (allocated st)\<rparr>) = (rs, st'')"
    by (cases "client_calls aws cs (st\<lparr>allocated := Suc (allocated st)\<rparr>)")
  from Cons.IH [OF rest, of "st\<lparr>allocated := Suc (allocated st)\<rparr>"] rs
  have "length (constructed rs) = length cs" by simp
  with known show ?case by (simp add: nc rs client_result)
qed

text \<open>
  C8. The base configuration a proxy captured is not changed by its \<^verbatim>\<open>client\<close>
  method: after every sequence of \<^verbatim>\<open>client(...)\<close> calls the proxy and its stored options
  are what they were. There is no cache: the configuration of the client each call
  returns is the one that call alone would give, whatever calls came before, and the
  clients constructed in a sequence of calls are pairwise distinct objects. Calls do
  produce clients: when every name of the sequence is a service of the SDK, every call
  returns one, and two calls in a row with the same name return two clients of that
  service that are distinct objects, each with the configuration of its own call,
  and leave the proxy as it was.
\<close>

theorem client_calls_frame:
  "this (snd (client_calls aws cs st)) = this st
   \<and> options (this (snd (client_calls aws cs st))) = options (this st)
   \<and> map (given_config) (fst (client_calls aws cs st))
       = map (\<lambda>(name, opts). given_config (fst (client aws name opts st))) cs
   \<and> distinct (map instance_id (constructed (fst (client_calls aws cs st))))
   \<and> (list_all (\<lambda>(name, opts). aws name) cs \<longrightarrow>
        length (constructed (fst (client_calls aws cs st))) = length cs
        \<and> fst (client_calls aws cs st) = map Inr (constructed (fst (client_calls aws cs st))))
   \<and> (aws name \<longrightarrow>
        (\<exists>c1 st1 c2 st2.
            client aws name opts1 st = (Inr c1, st1)
          \<and> client aws name opts2 st1 = (Inr c2, st2)
          \<and> instance_id c1 \<noteq> instance_id c2
          \<and> service c1 = name \<and> service c2 = name
          \<and> config c1 = spread (options (this st)) opts1
          \<and> config c2 = spread (options (this st)) opts2
          \<and> this st1 = this st \<and> this st2 = this st))"
proof (intro conjI impI)
  show "this (snd (client_calls aws cs st)) = this st"
    by (rule client_calls_this)
  then show "options (this (snd (client_calls aws cs st))) = options (this st)"
    by simp
  show "map (given_config) (fst (client_calls aws cs st))
       = map (\<lambda>(name, opts). given_config (fst (client aws name opts st))) cs"
    by (rule client_calls_configs)
  show "distinct (map instance_id (constructed (fst (client_calls aws cs st))))"
    by (rule client_calls_distinct)
next
  assume known: "list_all (\<lambda>(name, opts). aws name) cs"
  then show len: "length (constructed (fst (client_calls aws cs st))) = length cs"
    by (rule client_calls_all_constructed)
  have "length (fst (client_calls aws cs st)) = length cs"
    using arg_cong [OF client_calls_configs [of aws cs st], of length] by simp
  with len have "length (constructed (fst (client_calls aws cs st)))
      = length (fst (client_calls aws cs st))"
    by simp
  then show "fst (client_calls aws cs st) = map Inr (constructed (fst (client_calls aws cs st)))"
    by (rule constructed_all)
next
  assume "aws name"
  then show "\<exists>c1 st1 c2 st2.
            client aws name opts1 st = (Inr c1, st1)
          \<and> client aws name opts2 st1 = (Inr c2, st2)
          \<and> instance_id c1 \<noteq> instance_id c2
          \<and> service c1 = name \<and> service c2 = name
          \<and> config c1 = spread (options (this st)) opts1
          \<and> config c2 = spread (options (this st)) opts2
          \<and> this st1 = this st \<and> this st2 = this st"
    by (simp add: client_result)
qed

theorem client_calls_frame_witness:
  "list_all (\<lambda>(name, opts). name = ''S3'')
     [(''S3'', None),
      (''S3'', Some \<lparr> credentials = Absent, region = Value ''X'', other_options = (\<lambda>k. Absent) \<rparr>)]
   \<and> (\<exists>c1 c2 st2.
        client_calls (\<lambda>name. name = ''S3'')
          [(''S3'', None),
           (''S3'', Some \<lparr> credentials = Absent, region = Value ''X'',
                            other_options = (\<lambda>k. Absent) \<rparr>)]
          \<lparr> this = \<lparr> options = \<lparr> credentials = Value (''AKIA'', ''secret''), region = Value ''Y'',
                                    other_options = (\<lambda>k. Absent) \<rparr> \<rparr>, allocated = 0 \<rparr>
          = ([Inr c1, Inr c2], st2)
      \<and> instance_id c1 \<noteq> instance_id c2
      \<and> service c1 = ''S3'' \<and> service c2 = ''S3''
      \<and> region (config c1) = Value ''Y'' \<and> region (config c2) = Value ''X''
      \<and> region (options (this st2)) = Value ''Y'')"
  using client_calls_frame
    [of "\<lambda>name. name = ''S3''"
        "[(''S3'', None),
          (''S3'', Some \<lparr> credentials = Absent, region = Value ''X'',
                           other_options = (\<lambda>k. Absent) \<rparr>)]"
        "\<lparr> this = \<lparr> options = \<lparr> credentials = Value (''AKIA'', ''secret''), region = Value ''Y'',
                                  other_options = (\<lambda>k. Absent) \<rparr> \<rparr>, allocated = 0 \<rparr>"
        "''S3''" None
        "Some \<lparr> credentials = Absent, region = Value ''X'', other_options = (\<lambda>k. Absent) \<rparr>"]
  by (simp add: client_def)

end
